theory Spec2Isabelle
  imports
    Main
    "HOL-Library.Char_ord"
    "HOL-Library.List_Lexorder"
    "HOL-Library.Sublist"
    "HOL-Library.Multiset"
begin

section \<open>Python strings and lists\<close>

text \<open>
  A Python \<open>str\<close> is a sequence of characters; it is modelled as \<^typ>\<open>string\<close>, one
  \<^typ>\<open>char\<close> per character, so \<open>len\<close> is \<^const>\<open>length\<close> and slicing is
  \<^const>\<open>take\<close>. The order of \<open>list.sort\<close> on strings (character codes, compared
  lexicographically, a proper prefix first) is the order that \<open>Char_ord\<close> and
  \<open>List_Lexorder\<close> give \<^typ>\<open>string\<close>.
  \<^typ>\<open>char\<close> has the 256 codes from 0 to 255; nothing below depends on how many
  characters there are.
\<close>

text \<open>\<open>s.rstrip('/')\<close> with \<open>c\<close> the character: every trailing \<open>c\<close> is removed.\<close>

definition rstrip :: "char \<Rightarrow> string \<Rightarrow> string" where
  "rstrip c s = rev (dropWhile (\<lambda>x. x = c) (rev s))"

text \<open>
  \<open>s.split(sep)\<close> for a one-character separator: the pieces between the separators, empty
  pieces kept; the result is never empty (\<open>''.split('/') == ['']\<close>).
\<close>

fun split :: "char \<Rightarrow> string \<Rightarrow> string list" where
  "split sep [] = [[]]"
| "split sep (c # cs) =
     (if c = sep then [] # split sep cs
      else (case split sep cs of
              [] \<Rightarrow> [[c]]
            | w # ws \<Rightarrow> (c # w) # ws))"

text \<open>\<open>sub in s\<close>: \<open>sub\<close> occurs in \<open>s\<close> as a contiguous run.\<close>

fun contains :: "string \<Rightarrow> string \<Rightarrow> bool" where
  "contains [] sub = (sub = [])"
| "contains (c # cs) sub = (prefix sub (c # cs) \<or> contains cs sub)"

text \<open>\<open>s.endswith(ext)\<close>.\<close>

definition endswith :: "string \<Rightarrow> string \<Rightarrow> bool" where
  "endswith s ext = prefix (rev ext) (rev s)"

text \<open>
  \<open>s.lower()\<close>. On the letters \<open>A\<close> to \<open>Z\<close> (codes 65 to 90) it gives the small
  letter, 32 higher, which is the same code with the bit of value 32 set; no other
  character is turned into one of the letters of \<open>readme\<close>, the only word the result is
  searched for here.
\<close>

definition lower_char :: "char \<Rightarrow> char" where
  "lower_char c =
     (if CHR ''A'' \<le> c \<and> c \<le> CHR ''Z''
      then (case c of Char b0 b1 b2 b3 b4 b5 b6 b7 \<Rightarrow> Char b0 b1 b2 b3 b4 True b6 b7)
      else c)"

definition lower :: "string \<Rightarrow> string" where
  "lower s = map lower_char s"

text \<open>
  \<open>xs[:n]\<close> for a Python integer \<open>n\<close>: the first \<open>n\<close> elements when \<open>n\<close> is not
  negative, and all but the last \<open>-n\<close> elements when it is.
\<close>

definition slice_to :: "int \<Rightarrow> 'a list \<Rightarrow> 'a list" where
  "slice_to n xs = (if 0 \<le> n then take (nat n) xs else take (nat (int (length xs) + n)) xs)"

section \<open>services/github.py\<close>

datatype error =
    ValueError string
  | GitHubClientError string
  | RuntimeError string

text \<open>
  \<open>parse_github_url\<close>: the trailing slashes are stripped, the string is split at \<open>/\<close>,
  and when there are at least two parts and \<open>github.com\<close> occurs in the string, the last
  two parts are the owner and the repository (a final \<open>.git\<close> removed); otherwise
  \<open>ValueError\<close> is raised.
\<close>

definition parse_github_url :: "string \<Rightarrow> error + (string \<times> string)" where
  "parse_github_url url0 =
     (let url = rstrip CHR ''/'' url0;
          parts = split CHR ''/'' url
      in if 2 \<le> length parts \<and> contains url ''github.com'' then
           let repo = last parts;
               owner = last (butlast parts);
               repo = (if endswith repo ''.git'' then take (length repo - 4) repo else repo)
           in Inr (owner, repo)
         else Inl (ValueError ''Invalid GitHub URL format.''))"

text \<open>
  What \<open>client.get(url)\<close> answers: the status code, the body as text (\<open>response.text\<close>)
  and the body decoded (\<open>response.json()\<close>). The decoded body of the repository endpoint
  is read for \<open>default_branch\<close> only, that of the tree endpoint for \<open>tree\<close> and
  \<open>truncated\<close>; a key that may be absent is an \<^typ>\<open>'a option\<close>. A remote service is
  a function from the URL to the response. A request that gets no response at all (the
  client raises a transport error) is not modelled.
\<close>

record 'a response =
  status_code :: int
  body_text :: string
  body_json :: 'a

record repo_info =
  default_branch :: "string option"

record tree_item =
  item_path :: string
  item_type :: string

record tree_data =
  tree :: "tree_item list option"
  truncated :: "bool option"

text \<open>\<open>str(e)\<close> of an exception raised with one message.\<close>

fun message :: "error \<Rightarrow> string" where
  "message (ValueError m) = m"
| "message (GitHubClientError m) = m"
| "message (RuntimeError m) = m"

definition get_repo_info ::
  "(string \<Rightarrow> repo_info response) \<Rightarrow> string \<Rightarrow> string \<Rightarrow> error + repo_info" where
  "get_repo_info client_get owner repo =
     (let url = ''https://api.github.com/repos/'' @ owner @ ''/'' @ repo;
          response = client_get url
      in if status_code response \<noteq> 200
         then Inl (GitHubClientError (''Failed to fetch repo info: '' @ body_text response))
         else Inr (body_json response))"

text \<open>
  \<open>get_repo_tree\<close>: \<open>data.get("truncated")\<close> is looked at only under
  \<open>"tree" not in data\<close>; a body that has the \<open>tree\<close> key is returned whatever its
  \<open>truncated\<close> flag.
\<close>

definition get_repo_tree ::
  "(string \<Rightarrow> tree_data response) \<Rightarrow> string \<Rightarrow> string \<Rightarrow> string \<Rightarrow> error + tree_item list" where
  "get_repo_tree client_get owner repo branch =
     (let url = ''https://api.github.com/repos/'' @ owner @ ''/'' @ repo @ ''/git/trees/''
                  @ branch @ ''?recursive=1'';
          response = client_get url
      in if status_code response \<noteq> 200
         then Inl (GitHubClientError (''Failed to fetch repo tree: '' @ body_text response))
         else
           let data = body_json response
           in (case tree data of
                 None \<Rightarrow>
                   if truncated data = Some True
                   then Inl (GitHubClientError ''Repository tree is too large (truncated).'')
                   else Inl (GitHubClientError ''Invalid tree response from GitHub.'')
               | Some entries \<Rightarrow> Inr entries))"

definition get_raw_file_content ::
  "(string \<Rightarrow> unit response) \<Rightarrow> string \<Rightarrow> string \<Rightarrow> string \<Rightarrow> string \<Rightarrow> string" where
  "get_raw_file_content client_get owner repo branch file_path =
     (let url = ''https://raw.githubusercontent.com/'' @ owner @ ''/'' @ repo @ ''/'' @ branch
                  @ ''/'' @ file_path;
          response = client_get url
      in if status_code response \<noteq> 200 then [] else body_text response)"

section \<open>services/processor.py\<close>

definition IGNORE_PATTERNS :: "string list" where
  "IGNORE_PATTERNS =
     [''*.png'', ''*.jpg'', ''*.jpeg'', ''*.gif'', ''*.ico'', ''*.pdf'', ''*.eot'', ''*.svg'',
      ''*.ttf'', ''*.woff'', ''*.woff2'',
      ''*.mp4'', ''*.webm'', ''*.mp3'', ''*.wav'', ''*.zip'', ''*.tar'', ''*.gz'', ''*.7z'',
      ''*.exe'', ''*.dll'', ''*.so'', ''*.dylib'',
      ''node_modules/'', ''venv/'', ''.venv/'', ''env/'', ''.env'', ''build/'', ''dist/'',
      ''target/'', ''out/'', ''__pycache__/'', ''*.pyc'',
      ''.next/'', ''.nuxt/'', ''.cache/'',
      ''.git/'', ''.github/'', ''.vscode/'', ''.idea/'', ''*.iml'',
      ''package-lock.json'', ''yarn.lock'', ''pnpm-lock.yaml'', ''poetry.lock'',
      ''Pipfile.lock'', ''Gemfile.lock'', ''Cargo.lock'',
      ''__init__.py'']"

text \<open>
  Modelled from the spec: \<open>PathSpec.match_file\<close> of the third-party library
  \<open>pathspec\<close> (with \<open>GitWildMatchPattern\<close>), which \<open>filter_paths\<close> calls and which is
  not part of the repository. The spec gives it "gitignore-pattern semantics: \<open>*\<close> globs,
  trailing-\<open>/\<close> directory-anchored rules". Every rule of \<open>IGNORE_PATTERNS\<close> is a single
  name with no inner \<open>/\<close>, so it applies at any depth:
  \<^item> a rule without a trailing \<open>/\<close> matches a path when one of its segments, a directory
    or the file itself, matches the name, \<open>*\<close> standing for any run of characters of
    the segment;
  \<^item> a rule with a trailing \<open>/\<close> matches a path when one of the directories above the
    file (a segment other than the last) matches the name.
  A path is matched when some rule matches it (the list has no negated rule). Paths are
  the repository-relative paths of a tree listing.
\<close>

fun glob_match :: "string \<Rightarrow> string \<Rightarrow> bool" where
  "glob_match [] s = (s = [])"
| "glob_match (p # ps) [] = (p = CHR ''*'' \<and> glob_match ps [])"
| "glob_match (p # ps) (c # cs) =
     (if p = CHR ''*'' then glob_match ps (c # cs) \<or> glob_match (p # ps) cs
      else p = c \<and> glob_match ps cs)"

definition pattern_match :: "string \<Rightarrow> string \<Rightarrow> bool" where
  "pattern_match pat file =
     (let segs = split CHR ''/'' file
      in if endswith pat ''/''
         then list_ex (glob_match (butlast pat)) (butlast segs)
         else list_ex (glob_match pat) segs)"

definition match_file :: "string list \<Rightarrow> string \<Rightarrow> bool" where
  "match_file patterns file = list_ex (\<lambda>pat. pattern_match pat file) patterns"

text \<open>\<open>filter_paths\<close>: the paths that the compiled \<open>IGNORE_PATTERNS\<close> do not match, in order.\<close>

definition filter_paths :: "string list \<Rightarrow> string list" where
  "filter_paths paths = [path \<leftarrow> paths. \<not> match_file IGNORE_PATTERNS path]"

text \<open>\<open>sep.join(xs)\<close>.\<close>

fun join :: "string \<Rightarrow> string list \<Rightarrow> string" where
  "join sep [] = []"
| "join sep [x] = x"
| "join sep (x # y # ys) = x @ sep @ join sep (y # ys)"

text \<open>
  \<open>build_tree_string\<close> and \<open>prioritize_files\<close> begin with \<open>paths.sort()\<close>, which sorts the
  caller's list object in place. The model passes that state explicitly: each function
  returns its value together with the content of \<open>paths\<close> when the call returns.
\<close>

definition build_tree_string :: "string list \<Rightarrow> string \<times> string list" where
  "build_tree_string paths0 =
     (let paths = sort paths0
      in (join [CHR 0x0A] paths, paths))"

definition key_files :: "string list" where
  "key_files =
     [''README.md'', ''README'', ''package.json'', ''pyproject.toml'', ''requirements.txt'',
      ''Dockerfile'', ''docker-compose.yml'', ''setup.py'', ''go.mod'', ''Cargo.toml'']"

definition core_names :: "string list" where
  "core_names =
     [''main.py'', ''app.py'', ''index.js'', ''index.ts'', ''app.js'', ''app.ts'', ''main.go'',
      ''main.rs'']"

definition source_exts :: "string list" where
  "source_exts =
     [''.py'', ''.js'', ''.ts'', ''.go'', ''.rs'', ''.java'', ''.cpp'', ''.c'', ''.h'', ''.cs'',
      ''.rb'', ''.php'']"

text \<open>\<open>filename = path.split('/')[-1]\<close> and \<open>depth = len(path.split('/'))\<close>.\<close>

definition filename :: "string \<Rightarrow> string" where
  "filename path = last (split CHR ''/'' path)"

definition depth :: "string \<Rightarrow> nat" where
  "depth path = length (split CHR ''/'' path)"

text \<open>The three conditions under which a loop of \<open>prioritize_files\<close> takes a path.\<close>

definition is_key_file :: "string \<Rightarrow> bool" where
  "is_key_file path =
     (filename path \<in> set key_files \<or> contains (lower (filename path)) ''readme'')"

definition is_core_file :: "string \<Rightarrow> bool" where
  "is_core_file path = (filename path \<in> set core_names \<and> depth path \<le> 3)"

definition is_source_file :: "string \<Rightarrow> bool" where
  "is_source_file path = list_ex (\<lambda>ext. endswith path ext) source_exts"

text \<open>\<open>if path not in priority_files: priority_files.append(path)\<close>.\<close>

definition append_new :: "string list \<Rightarrow> string \<Rightarrow> string list" where
  "append_new priority_files path =
     (if path \<in> set priority_files then priority_files else priority_files @ [path])"

text \<open>The first two loops run over every path; the accumulator is \<open>priority_files\<close>.\<close>

definition category1 :: "string list \<Rightarrow> string list \<Rightarrow> string list" where
  "category1 paths priority_files =
     foldl (\<lambda>acc path. if is_key_file path then append_new acc path else acc)
       priority_files paths"

definition category2 :: "string list \<Rightarrow> string list \<Rightarrow> string list" where
  "category2 paths priority_files =
     foldl (\<lambda>acc path. if is_core_file path then append_new acc path else acc)
       priority_files paths"

text \<open>The third loop leaves (\<open>break\<close>) as soon as \<open>max_files\<close> paths are selected.\<close>

fun category3 :: "int \<Rightarrow> string list \<Rightarrow> string list \<Rightarrow> string list" where
  "category3 max_files [] priority_files = priority_files"
| "category3 max_files (path # paths) priority_files =
     (if max_files \<le> int (length priority_files) then priority_files
      else category3 max_files paths
             (if is_source_file path then append_new priority_files path else priority_files))"

definition prioritize_files :: "string list \<Rightarrow> int \<Rightarrow> string list \<times> string list" where
  "prioritize_files paths0 max_files =
     (let paths = sort paths0;
          priority_files = [];
          priority_files = category1 paths priority_files;
          priority_files = category2 paths priority_files;
          priority_files = category3 max_files paths priority_files
      in (slice_to max_files priority_files, paths))"

section \<open>services/llm.py\<close>

definition max_chars :: nat where
  "max_chars = 300000"

definition truncation_marker :: string where
  "truncation_marker = CHR 0x0A # ''...[CONTENT TRUNCATED]...''"

text \<open>
  The size bound of \<open>generate_summary\<close>:
  \<open>if len(file_contents) > max_chars: file_contents = file_contents[:max_chars] + marker\<close>.
\<close>

definition bound_file_contents :: "string \<Rightarrow> string" where
  "bound_file_contents file_contents =
     (if max_chars < length file_contents
      then take max_chars file_contents @ truncation_marker
      else file_contents)"

definition user_prompt :: "string \<Rightarrow> string \<Rightarrow> string" where
  "user_prompt file_tree file_contents =
     ''Directory Tree:'' @ [CHR 0x0A] @ file_tree @ [CHR 0x0A, CHR 0x0A]
       @ ''Key File Contents:'' @ [CHR 0x0A] @ file_contents @ [CHR 0x0A]"

text \<open>
  The summarization service is outside the repository: \<open>client_ok\<close> says whether
  \<open>AsyncOpenAI()\<close> could be built, \<open>create\<close> is the chat completion (from the repository
  name, which only the system prompt uses, and the user prompt to the content of the
  first choice, empty when there is none, or the exception raised) and \<open>loads\<close> is
  \<open>json.loads\<close>. Every failure after the client is built is raised again as
  \<open>RuntimeError\<close>.
\<close>

record 'r openai =
  client_ok :: bool
  create :: "string \<Rightarrow> string \<Rightarrow> error + string"
  loads :: "string \<Rightarrow> error + 'r"

definition generate_summary ::
  "'r openai \<Rightarrow> string \<Rightarrow> string \<Rightarrow> string \<Rightarrow> error + 'r" where
  "generate_summary llm repo_name file_tree file_contents0 =
     (if \<not> client_ok llm then Inl (ValueError ''OpenAI API key missing or invalid.'')
      else
        let file_contents = bound_file_contents file_contents0
        in (case create llm repo_name (user_prompt file_tree file_contents) of
              Inl e \<Rightarrow> Inl (RuntimeError (''Failed to generate summary: '' @ message e))
            | Inr content \<Rightarrow>
                if content = []
                then Inl (RuntimeError ''Failed to generate summary: Empty response from LLM'')
                else (case loads llm content of
                        Inl e \<Rightarrow> Inl (RuntimeError (''Failed to generate summary: '' @ message e))
                      | Inr summary \<Rightarrow> Inr summary)))"

section \<open>services/orchestrator.py\<close>

text \<open>
  \<open>s.strip()\<close> removes the white space at both ends; the characters below are the ones
  for which \<open>str.isspace\<close> holds among the codes under 256.
\<close>

definition isspace :: "char \<Rightarrow> bool" where
  "isspace c =
     (c \<in> set [CHR 0x09, CHR 0x0A, CHR 0x0B, CHR 0x0C, CHR 0x0D, CHR 0x1C, CHR 0x1D, CHR 0x1E,
               CHR 0x1F, CHR 0x20, CHR 0x85, CHR 0xA0])"

definition strip :: "string \<Rightarrow> string" where
  "strip s = rev (dropWhile isspace (rev (dropWhile isspace s)))"

text \<open>The block that one fetched file adds to \<open>context_string\<close>, and the loop over
  \<open>zip(priority_paths, contents)\<close> that adds them.\<close>

definition file_block :: "string \<Rightarrow> string \<Rightarrow> string" where
  "file_block path content =
     [CHR 0x0A, CHR 0x0A] @ ''--- FILE: '' @ path @ '' ---'' @ [CHR 0x0A] @ content @ [CHR 0x0A]"

definition build_context :: "(string \<times> string) list \<Rightarrow> string" where
  "build_context fetched =
     foldl (\<lambda>context_string (path, content).
              if strip content \<noteq> [] then context_string @ file_block path content
              else context_string)
       [] fetched"

text \<open>The three remote services of GitHub that the orchestrator reads.\<close>

record github =
  repo_api :: "string \<Rightarrow> repo_info response"
  tree_api :: "string \<Rightarrow> tree_data response"
  raw_api :: "string \<Rightarrow> unit response"

text \<open>
  \<open>asyncio.gather\<close> returns the results in the order of the tasks, so \<open>contents\<close> is the
  map of the fetch over \<open>priority_paths\<close>. Both \<open>build_tree_string\<close> and
  \<open>prioritize_files\<close> sort the one list \<open>clean_paths\<close>.
\<close>

definition process_github_repo :: "github \<Rightarrow> 'r openai \<Rightarrow> string \<Rightarrow> error + 'r" where
  "process_github_repo gh llm url_str =
     (case parse_github_url url_str of
        Inl e \<Rightarrow> Inl e
      | Inr (owner, repo) \<Rightarrow>
          (case get_repo_info (repo_api gh) owner repo of
             Inl e \<Rightarrow>
               Inl (GitHubClientError
                      (''Could not access repository: '' @ owner @ ''/'' @ repo
                         @ ''. It may be private or invalid. Details: '' @ message e))
           | Inr info \<Rightarrow>
               let branch = (case default_branch info of None \<Rightarrow> ''main'' | Some b \<Rightarrow> b)
               in (case get_repo_tree (tree_api gh) owner repo branch of
                     Inl e \<Rightarrow> Inl (GitHubClientError (''Failed to fetch repo tree: '' @ message e))
                   | Inr entries \<Rightarrow>
                       let all_paths = [item_path item. item \<leftarrow> entries, item_type item = ''blob''];
                           clean_paths = filter_paths all_paths;
                           (file_tree_str, clean_paths) = build_tree_string clean_paths;
                           (priority_paths, clean_paths) = prioritize_files clean_paths 10;
                           contents = map (get_raw_file_content (raw_api gh) owner repo branch)
                                        priority_paths;
                           context_string = build_context (zip priority_paths contents)
                       in generate_summary llm repo file_tree_str context_string)))"

section \<open>Properties of the reference parser\<close>



lemma contains_iff_sublist: "contains s sub \<longleftrightarrow> sublist sub s"
  by (induction s) (auto simp: sublist_Cons_right)




section \<open>Properties of the size bound of the summarizer\<close>



section \<open>Properties of the path filter and the file prioritizer\<close>

subsection \<open>Selecting into \<open>priority_files\<close>\<close>

lemma set_append_new: "set (append_new acc p) = insert p (set acc)"
  by (auto simp: append_new_def)


text \<open>
  A loop that appends the new paths satisfying \<open>P\<close> keeps what was selected as a prefix,
  keeps it free of duplicates, and adds only paths of the input that satisfy \<open>P\<close> and
  were not selected before.
\<close>

lemma select_loop_set:
  "set (foldl (\<lambda>acc p. if P p then append_new acc p else acc) acc ps)
     = set acc \<union> {p \<in> set ps. P p}"
  by (induction ps arbitrary: acc) (auto simp: set_append_new)



lemma category3_set:
  "set (category3 m ps acc) \<subseteq> set acc \<union> {p \<in> set ps. is_source_file p}"
  by (induction m ps acc rule: category3.induct) (auto simp: set_append_new split: if_splits)



lemma slice_to_prefix: "prefix (slice_to n xs) xs"
  by (simp add: slice_to_def take_is_prefix)

lemma set_slice_to: "set (slice_to n xs) \<subseteq> set xs"
  by (auto simp: slice_to_def dest: in_set_takeD)



subsection \<open>The three tiers of \<open>prioritize_files\<close>\<close>

text \<open>The list built by the three loops, before the final slice.\<close>

lemma fst_prioritize_files:
  "fst (prioritize_files paths m)
     = slice_to m (category3 m (sort paths) (category2 (sort paths) (category1 (sort paths) [])))"
  by (simp add: prioritize_files_def Let_def)

lemma snd_prioritize_files: "snd (prioritize_files paths m) = sort paths"
  by (simp add: prioritize_files_def Let_def)


lemma tiers_set:
  "set (category3 m ps (category2 ps (category1 ps [])))
     \<subseteq> {p \<in> set ps. is_key_file p \<or> is_core_file p \<or> is_source_file p}"
proof -
  have "set (category2 ps (category1 ps [])) \<subseteq> {p \<in> set ps. is_key_file p \<or> is_core_file p}"
    by (auto simp: category2_def category1_def select_loop_set)
  with category3_set [of m ps "category2 ps (category1 ps [])"] show ?thesis
    by blast
qed


lemma sort_permutation: "mset xs = mset ys \<Longrightarrow> sort xs = sort (ys :: string list)"
  by (rule properties_for_sort) simp_all



subsection \<open>The claims on the path filter\<close>

text \<open>
  C8: \<open>filter_paths\<close> is idempotent, filtering its own output gives that output again,
  and its output keeps the retained paths in the order in which the input has them (it
  is a subsequence of the input).
\<close>

theorem filter_paths_idempotent:
  "filter_paths (filter_paths paths) = filter_paths paths
   \<and> subseq (filter_paths paths) paths"
  by (simp add: filter_paths_def)

subsection \<open>The claims on the file prioritizer\<close>

text \<open>
  C3: for two orderings of the same paths (two lists with the same elements, each as
  often) and the same \<open>max_files\<close>, \<open>prioritize_files\<close> returns the same sequence.
\<close>

theorem prioritize_files_order_independent:
  "mset paths1 = mset paths2 \<Longrightarrow>
     fst (prioritize_files paths1 max_files) = fst (prioritize_files paths2 max_files)"
  by (simp add: fst_prioritize_files sort_permutation [of paths1 paths2])

theorem prioritize_files_order_independent_witness:
  "mset [''b.py'', ''README.md'', ''a.py''] = mset [''a.py'', ''b.py'', ''README.md'']
   \<and> fst (prioritize_files [''b.py'', ''README.md'', ''a.py''] 10)
       = fst (prioritize_files [''a.py'', ''b.py'', ''README.md''] 10)"
proof -
  have h: "mset [''b.py'', ''README.md'', ''a.py''] = mset [''a.py'', ''b.py'', ''README.md'']"
    by (simp add: add_mset_commute)
  from h prioritize_files_order_independent [OF h, of 10] show ?thesis
    by (rule conjI)
qed






text \<open>
  C9, as the spec states it: the caller's list is unchanged after the call. The code
  begins with \<open>paths.sort()\<close>, which sorts the list object it was given: a caller that
  passes \<open>b.py\<close>, \<open>a.py\<close> holds \<open>a.py\<close>, \<open>b.py\<close> afterwards.
\<close>

theorem prioritize_files_sorts_in_place:
  "snd (prioritize_files [''b.py'', ''a.py''] 15) = [''a.py'', ''b.py'']
   \<and> snd (prioritize_files [''b.py'', ''a.py''] 15) \<noteq> [''b.py'', ''a.py'']"
proof -
  have "snd (prioritize_files [''b.py'', ''a.py''] 15) = [''a.py'', ''b.py'']"
    by code_simp
  then show ?thesis
    by simp
qed

text \<open>
  C9, amended: the only effect of \<open>prioritize_files\<close> on the caller's list is to sort it in
  place: after the call the list holds the same paths, each as often, in ascending order,
  so it is unchanged exactly when it was sorted already, as it is in
  \<open>process_github_repo\<close>, where \<open>build_tree_string\<close> has sorted the same list before.
\<close>

theorem prioritize_files_caller_list:
  "snd (prioritize_files paths max_files) = sort paths
   \<and> mset (snd (prioritize_files paths max_files)) = mset paths
   \<and> (snd (prioritize_files paths max_files) = paths \<longleftrightarrow> sorted paths)
   \<and> snd (prioritize_files (snd (build_tree_string paths)) max_files) = snd (build_tree_string paths)"
proof -
  have "sort paths = paths \<longleftrightarrow> sorted paths"
    by (metis sorted_sort sorted_sort_id)
  then show ?thesis
    by (simp add: snd_prioritize_files build_tree_string_def Let_def sorted_sort_id)
qed

theorem prioritize_files_caller_list_witness:
  "sorted [''a.py'', ''b.py'']
   \<and> snd (prioritize_files [''a.py'', ''b.py''] 15) = [''a.py'', ''b.py'']"
proof -
  have s: "sorted [''a.py'', ''b.py'']"
    by code_simp
  with prioritize_files_caller_list [of "[''a.py'', ''b.py'']" 15] show ?thesis
    by blast
qed

text \<open>
  C10: every path of the output is a path of the input that meets the condition of one
  of the three loops: its last segment is a key file name or contains \<open>readme\<close> in any
  case, or its last segment is an entry point name and it has at most three segments, or
  it ends with a source extension. A path that meets none of them, such as \<open>notes.txt\<close>
  or \<open>docs/guide.rst\<close>, is never in the output, whatever room \<open>max_files\<close> leaves.
\<close>

theorem prioritize_files_only_tier_matches:
  "(\<forall>p \<in> set (fst (prioritize_files paths max_files)).
      p \<in> set paths \<and> (is_key_file p \<or> is_core_file p \<or> is_source_file p))
   \<and> (\<not> is_key_file q \<and> \<not> is_core_file q \<and> \<not> is_source_file q
        \<longrightarrow> q \<notin> set (fst (prioritize_files paths max_files)))
   \<and> \<not> (is_key_file ''notes.txt'' \<or> is_core_file ''notes.txt'' \<or> is_source_file ''notes.txt'')
   \<and> \<not> (is_key_file ''docs/guide.rst'' \<or> is_core_file ''docs/guide.rst''
          \<or> is_source_file ''docs/guide.rst'')"
proof -
  have sub: "set (fst (prioritize_files paths max_files))
               \<subseteq> {p \<in> set paths. is_key_file p \<or> is_core_file p \<or> is_source_file p}"
    using set_slice_to tiers_set [of max_files "sort paths"]
    unfolding fst_prioritize_files by fastforce
  have a: "\<not> (is_key_file ''notes.txt'' \<or> is_core_file ''notes.txt'' \<or> is_source_file ''notes.txt'')"
    by code_simp
  have b: "\<not> (is_key_file ''docs/guide.rst'' \<or> is_core_file ''docs/guide.rst''
              \<or> is_source_file ''docs/guide.rst'')"
    by code_simp
  from sub a b show ?thesis
    by blast
qed

theorem prioritize_files_only_tier_matches_witness:
  "fst (prioritize_files [''notes.txt'', ''src/util.py'', ''docs/guide.rst''] 15) = [''src/util.py'']
   \<and> ''src/util.py'' \<in> set [''notes.txt'', ''src/util.py'', ''docs/guide.rst'']
   \<and> (is_key_file ''src/util.py'' \<or> is_core_file ''src/util.py'' \<or> is_source_file ''src/util.py'')
   \<and> \<not> is_key_file ''notes.txt'' \<and> \<not> is_core_file ''notes.txt'' \<and> \<not> is_source_file ''notes.txt''
   \<and> ''notes.txt'' \<notin> set (fst (prioritize_files [''notes.txt'', ''src/util.py'', ''docs/guide.rst''] 15))"
proof -
  have out: "fst (prioritize_files [''notes.txt'', ''src/util.py'', ''docs/guide.rst''] 15)
               = [''src/util.py'']"
    by code_simp
  note inst = prioritize_files_only_tier_matches
    [of "[''notes.txt'', ''src/util.py'', ''docs/guide.rst'']" 15 "''notes.txt''"]
  from inst have no: "\<not> is_key_file ''notes.txt'' \<and> \<not> is_core_file ''notes.txt''
      \<and> \<not> is_source_file ''notes.txt''"
    by blast
  with inst have absent:
    "''notes.txt'' \<notin> set (fst (prioritize_files [''notes.txt'', ''src/util.py'', ''docs/guide.rst''] 15))"
    by blast
  from inst out have "''src/util.py'' \<in> set [''notes.txt'', ''src/util.py'', ''docs/guide.rst'']
      \<and> (is_key_file ''src/util.py'' \<or> is_core_file ''src/util.py'' \<or> is_source_file ''src/util.py'')"
    by simp
  with out no absent show ?thesis
    by blast
qed

section \<open>Properties of the remote stages\<close>

subsection \<open>The tree fetcher and the truncated flag\<close>

text \<open>
  \<open>get_repo_tree\<close> fails exactly when the status is not 200 or the body has no \<open>tree\<close>
  key; the \<open>truncated\<close> flag only selects the message of the second failure.
\<close>

lemma get_repo_tree_fails_iff:
  "(\<exists>e. get_repo_tree client_get owner repo branch = Inl e)
     \<longleftrightarrow> (let response = client_get (''https://api.github.com/repos/'' @ owner @ ''/'' @ repo
                                         @ ''/git/trees/'' @ branch @ ''?recursive=1'')
          in status_code response \<noteq> 200 \<or> tree (body_json response) = None)"
  by (simp add: get_repo_tree_def Let_def split: option.splits)

text \<open>
  C2: a tree response whose \<open>truncated\<close> flag is set makes \<open>get_repo_tree\<close> fail, whether
  or not the listing is present. The code raises "Repository tree is too large
  (truncated)." only when the \<open>tree\<close> key is missing. A successful response that is
  marked truncated and carries its (partial) listing, which is how the remote marks a
  listing cut at its size cap, is returned as if it were complete.
\<close>

theorem get_repo_tree_truncated_listing_returned:
  "get_repo_tree
     (\<lambda>url. \<lparr>status_code = 200, body_text = [],
             body_json = \<lparr>tree = Some [\<lparr>item_path = ''README.md'', item_type = ''blob''\<rparr>],
                          truncated = Some True\<rparr>\<rparr>)
     ''octocat'' ''hello'' ''main''
   = Inr [\<lparr>item_path = ''README.md'', item_type = ''blob''\<rparr>]"
  by (simp add: get_repo_tree_def)

subsection \<open>Content fetches that fail\<close>

lemma get_raw_file_content_failed:
  "status_code (client_get (''https://raw.githubusercontent.com/'' @ owner @ ''/'' @ repo @ ''/''
                              @ branch @ ''/'' @ file_path)) \<noteq> 200
   \<Longrightarrow> get_raw_file_content client_get owner repo branch file_path = []"
  by (simp add: get_raw_file_content_def)

lemma context_loop:
  "foldl (\<lambda>context_string (path, content).
            if strip content \<noteq> [] then context_string @ file_block path content
            else context_string)
     acc (zip ps (map f ps))
   = acc @ concat (map (\<lambda>p. file_block p (f p)) [p \<leftarrow> ps. strip (f p) \<noteq> []])"
  by (induction ps arbitrary: acc) simp_all

lemma build_context_blocks:
  "build_context (zip ps (map f ps))
     = concat (map (\<lambda>p. file_block p (f p)) [p \<leftarrow> ps. strip (f p) \<noteq> []])"
  unfolding build_context_def context_loop by simp

lemma strip_empty: "strip [] = []"
  by (simp add: strip_def)

text \<open>
  C7: a content fetch that gets a non-success response gives the empty string and no
  error. Once the reference, the metadata and the tree stages have succeeded, no status
  of a content fetch makes \<open>process_github_repo\<close> fail: it calls the summarizer with the
  context made of the blocks of the selected paths, in their order, each with the content
  fetched for that very path, the paths whose content is blank (as that of a failed
  fetch is) left out.
\<close>

theorem content_fetch_failure_absorbed:
  assumes "parse_github_url url_str = Inr (owner, repo)"
    and "get_repo_info (repo_api gh) owner repo = Inr info"
    and "branch = (case default_branch info of None \<Rightarrow> ''main'' | Some b \<Rightarrow> b)"
    and "get_repo_tree (tree_api gh) owner repo branch = Inr entries"
    and "clean_paths = filter_paths [item_path item. item \<leftarrow> entries, item_type item = ''blob'']"
    and "priority_paths = fst (prioritize_files (snd (build_tree_string clean_paths)) 10)"
    and "fetch = get_raw_file_content (raw_api gh) owner repo branch"
  shows "(\<forall>p. status_code (raw_api gh (''https://raw.githubusercontent.com/'' @ owner @ ''/''
                                        @ repo @ ''/'' @ branch @ ''/'' @ p)) \<noteq> 200
              \<longrightarrow> fetch p = [] \<and> p \<notin> set [p \<leftarrow> priority_paths. strip (fetch p) \<noteq> []])
         \<and> process_github_repo gh llm url_str
             = generate_summary llm repo (fst (build_tree_string clean_paths))
                 (concat (map (\<lambda>p. file_block p (fetch p))
                            [p \<leftarrow> priority_paths. strip (fetch p) \<noteq> []]))"
proof (intro conjI allI impI)
  fix p
  assume "status_code (raw_api gh (''https://raw.githubusercontent.com/'' @ owner @ ''/''
                                     @ repo @ ''/'' @ branch @ ''/'' @ p)) \<noteq> 200"
  then have "fetch p = []"
    unfolding assms(7) by (rule get_raw_file_content_failed)
  then show "fetch p = []" and "p \<notin> set [p \<leftarrow> priority_paths. strip (fetch p) \<noteq> []]"
    by (simp_all add: strip_empty)
next
  have "process_github_repo gh llm url_str
          = generate_summary llm repo (fst (build_tree_string clean_paths))
              (build_context (zip priority_paths (map fetch priority_paths)))"
    unfolding process_github_repo_def
    by (simp add: assms(1,2,4) assms(3) [symmetric] assms(5) [symmetric] assms(7) [symmetric]
        assms(6) [symmetric] Let_def split_beta)
  then show "process_github_repo gh llm url_str
               = generate_summary llm repo (fst (build_tree_string clean_paths))
                   (concat (map (\<lambda>p. file_block p (fetch p))
                              [p \<leftarrow> priority_paths. strip (fetch p) \<noteq> []]))"
    by (simp only: build_context_blocks)
qed

theorem content_fetch_failure_absorbed_witness:
  "parse_github_url ''https://github.com/o/r'' = Inr (''o'', ''r'')
   \<and> status_code
        ((\<lambda>url. if url = ''https://raw.githubusercontent.com/o/r/main/src/main.py''
                then \<lparr>status_code = 200, body_text = ''print(1)'', body_json = ()\<rparr>
                else \<lparr>status_code = 404, body_text = ''404: Not Found'', body_json = ()\<rparr>)
           ''https://raw.githubusercontent.com/o/r/main/README.md'') \<noteq> 200
   \<and> process_github_repo
        \<lparr>repo_api = (\<lambda>url. \<lparr>status_code = 200, body_text = [],
                             body_json = \<lparr>default_branch = None\<rparr>\<rparr>),
         tree_api = (\<lambda>url. \<lparr>status_code = 200, body_text = [],
                             body_json =
                               \<lparr>tree = Some [\<lparr>item_path = ''src/main.py'', item_type = ''blob''\<rparr>,
                                             \<lparr>item_path = ''src'', item_type = ''tree''\<rparr>,
                                             \<lparr>item_path = ''README.md'', item_type = ''blob''\<rparr>],
                                truncated = None\<rparr>\<rparr>),
         raw_api = (\<lambda>url. if url = ''https://raw.githubusercontent.com/o/r/main/src/main.py''
                           then \<lparr>status_code = 200, body_text = ''print(1)'', body_json = ()\<rparr>
                           else \<lparr>status_code = 404, body_text = ''404: Not Found'',
                                 body_json = ()\<rparr>)\<rparr>
        \<lparr>client_ok = True, create = (\<lambda>repo_name prompt. Inr prompt), loads = Inr\<rparr>
        ''https://github.com/o/r''
       = Inr (user_prompt (''README.md'' @ [CHR 0x0A] @ ''src/main.py'')
                (file_block ''src/main.py'' ''print(1)''))"
proof -
  let ?raw = "\<lambda>url. if url = ''https://raw.githubusercontent.com/o/r/main/src/main.py''
                     then \<lparr>status_code = 200, body_text = ''print(1)'', body_json = ()\<rparr>
                     else \<lparr>status_code = 404, body_text = ''404: Not Found'', body_json = ()\<rparr>"
  let ?entries = "[\<lparr>item_path = ''src/main.py'', item_type = ''blob''\<rparr>,
                   \<lparr>item_path = ''src'', item_type = ''tree''\<rparr>,
                   \<lparr>item_path = ''README.md'', item_type = ''blob''\<rparr>]"
  let ?gh = "\<lparr>repo_api = (\<lambda>url. \<lparr>status_code = 200, body_text = [],
                                  body_json = \<lparr>default_branch = None\<rparr>\<rparr>),
              tree_api = (\<lambda>url. \<lparr>status_code = 200, body_text = [],
                                  body_json = \<lparr>tree = Some ?entries, truncated = None\<rparr>\<rparr>),
              raw_api = ?raw\<rparr>"
  let ?llm = "\<lparr>client_ok = True, create = (\<lambda>repo_name prompt. Inr prompt), loads = Inr\<rparr>
                :: string openai"
  let ?fetch = "get_raw_file_content ?raw ''o'' ''r'' ''main''"
  have parse: "parse_github_url ''https://github.com/o/r'' = Inr (''o'', ''r'')"
    by (simp add: parse_github_url_def rstrip_def endswith_def)
  have info: "get_repo_info (repo_api ?gh) ''o'' ''r'' = Inr \<lparr>default_branch = None\<rparr>"
    by (simp add: get_repo_info_def)
  have branch: "''main'' = (case default_branch \<lparr>default_branch = None\<rparr> of
                              None \<Rightarrow> ''main'' | Some b \<Rightarrow> b)"
    by simp
  have entries: "get_repo_tree (tree_api ?gh) ''o'' ''r'' ''main'' = Inr ?entries"
    by (simp add: get_repo_tree_def)
  have clean: "[''src/main.py'', ''README.md'']
                 = filter_paths [item_path item. item \<leftarrow> ?entries, item_type item = ''blob'']"
  proof -
    have "filter_paths [''src/main.py'', ''README.md''] = [''src/main.py'', ''README.md'']"
      by code_simp
    then show ?thesis
      by simp
  qed
  have tree_str: "fst (build_tree_string [''src/main.py'', ''README.md''])
                    = ''README.md'' @ [CHR 0x0A] @ ''src/main.py''"
    by code_simp
  have prio: "[''README.md'', ''src/main.py'']
                = fst (prioritize_files (snd (build_tree_string [''src/main.py'', ''README.md''])) 10)"
    by code_simp
  have failed: "status_code (?raw ''https://raw.githubusercontent.com/o/r/main/README.md'') \<noteq> 200"
    by simp
  have fetch: "?fetch = get_raw_file_content (raw_api ?gh) ''o'' ''r'' ''main''"
    by simp
  note inst = content_fetch_failure_absorbed
    [OF parse info branch entries clean prio fetch, of ?llm]
  from inst failed have readme: "?fetch ''README.md'' = []"
    by simp
  have main: "?fetch ''src/main.py'' = ''print(1)''"
    by (simp add: get_raw_file_content_def)
  have nonblank: "strip ''print(1)'' \<noteq> []"
    by (simp add: strip_def isspace_def)
  have "process_github_repo ?gh ?llm ''https://github.com/o/r''
          = generate_summary ?llm ''r'' (''README.md'' @ [CHR 0x0A] @ ''src/main.py'')
              (file_block ''src/main.py'' ''print(1)'')"
    using inst [THEN conjunct2] readme main nonblank
    by (simp only: tree_str list.map filter.simps strip_empty concat.simps append_Nil2
        if_True if_False not_False_eq_True not_True_eq_False simp_thms)
  moreover have "length (file_block ''src/main.py'' ''print(1)'') \<le> max_chars"
    by (simp add: file_block_def max_chars_def)
  then have "generate_summary ?llm ''r'' (''README.md'' @ [CHR 0x0A] @ ''src/main.py'')
               (file_block ''src/main.py'' ''print(1)'')
             = Inr (user_prompt (''README.md'' @ [CHR 0x0A] @ ''src/main.py'')
                      (file_block ''src/main.py'' ''print(1)''))"
    by (simp add: generate_summary_def bound_file_contents_def user_prompt_def file_block_def)
  ultimately show ?thesis
    using parse failed by simp
qed

end
